theory Spec2Isabelle
  imports Complex_Main "HOL-Library.Sublist" "HOL-Library.State_Monad"
begin

section \<open>The star map of space-map-explorer (src/starMap.js)\<close>

text \<open>
  The class \<open>StarMap\<close> is embedded as a record of its fields and one HOL function per
  method or event handler. JavaScript numbers are read as real numbers: \<open>Math.sin\<close>,
  \<open>Math.cos\<close>, \<open>Math.acos\<close> and \<open>Math.PI\<close> are \<^term>\<open>sin\<close>, \<^term>\<open>cos\<close>,
  \<^term>\<open>arccos\<close> and \<^term>\<open>pi\<close>, so rounding, infinities and NaN are outside the model.
  The drawing context is not part of the state: \<open>render\<close> only writes to it and assigns
  no field of the map, so a call of \<open>render\<close> is the identity on the record below.
\<close>

subsection \<open>Data\<close>

text \<open>Catalog stars \<open>{name, ra, dec, mag}\<close> and plotted objects \<open>{name, ra, dec, type}\<close>
  share their first three fields; the field \<open>type\<close> is \<open>otype\<close> here.\<close>

record sky_object =
  name :: string
  ra :: real
  dec :: real

record star = sky_object +
  mag :: real

record plotted = sky_object +
  otype :: string

text \<open>A constellation line \<open>{star1, star2}\<close> and a canvas position \<open>{x, y}\<close>, whose
  fields are \<open>pos_x\<close> and \<open>pos_y\<close> here.\<close>

record line =
  star1 :: star
  star2 :: star

record point =
  pos_x :: real
  pos_y :: real

text \<open>The fields of a \<open>StarMap\<close>; \<open>canvas_width\<close> and \<open>canvas_height\<close> are
  \<open>this.canvas.width\<close> and \<open>this.canvas.height\<close>, taken as the numbers assigned to them
  (the canvas element's own rounding of its size to whole pixels is not modelled).\<close>

record star_map =
  canvas_width :: real
  canvas_height :: real
  zoom :: real
  panX :: real
  panY :: real
  showConstellations :: bool
  isDragging :: bool
  lastMouseX :: real
  lastMouseY :: real
  stars :: "star list"
  plottedObjects :: "plotted list"
  constellations :: "line list"

subsection \<open>Projection and visibility\<close>

text \<open>\<open>raDecToCanvas(ra, dec)\<close>, lines 120 to 134.\<close>

definition raDecToCanvas :: "star_map \<Rightarrow> real \<Rightarrow> real \<Rightarrow> point" where
  "raDecToCanvas m r d =
     (let centerX = canvas_width m / 2;
          centerY = canvas_height m / 2;
          raRad = (r * 15 - 180) * pi / 180;
          decRad = d * pi / 180;
          cosDec = cos decRad
      in \<lparr>pos_x = centerX + panX m + (sin raRad * cosDec * canvas_width m * zoom m * 0.4),
          pos_y = centerY + panY m - (cos raRad * cosDec * canvas_width m * zoom m * 0.4)\<rparr>)"

text \<open>
  The same method as a call on the object, in state-passing form: the result and the map
  after the call. Every \<open>this.f\<close> of the body is a read of the field \<open>f\<close>, in the order
  of the source; the body has no assignment to a field.
\<close>

definition this_field :: "(star_map \<Rightarrow> 'a) \<Rightarrow> (star_map, 'a) state" where
  "this_field f = State (\<lambda>m. (f m, m))"

definition raDecToCanvas_call :: "real \<Rightarrow> real \<Rightarrow> (star_map, point) state" where
  "raDecToCanvas_call r d = do {
     w0 \<leftarrow> this_field canvas_width;
     let centerX = w0 / 2;
     h0 \<leftarrow> this_field canvas_height;
     let centerY = h0 / 2;
     let raRad = (r * 15 - 180) * pi / 180;
     let decRad = d * pi / 180;
     let cosDec = cos decRad;
     px \<leftarrow> this_field panX;
     w1 \<leftarrow> this_field canvas_width;
     z1 \<leftarrow> this_field zoom;
     let x = centerX + px + (sin raRad * cosDec * w1 * z1 * 0.4);
     py \<leftarrow> this_field panY;
     w2 \<leftarrow> this_field canvas_width;
     z2 \<leftarrow> this_field zoom;
     let y = centerY + py - (cos raRad * cosDec * w2 * z2 * 0.4);
     State_Monad.return \<lparr>pos_x = x, pos_y = y\<rparr>
   }"

text \<open>\<open>isPointVisible(pos)\<close>, lines 315 to 318.\<close>

definition isPointVisible :: "star_map \<Rightarrow> point \<Rightarrow> bool" where
  "isPointVisible m pos \<longleftrightarrow>
     pos_x pos > -50 \<and> pos_x pos < canvas_width m + 50 \<and>
     pos_y pos > -50 \<and> pos_y pos < canvas_height m + 50"

subsection \<open>Catalog and constellation lines\<close>

definition mk_star :: "string \<Rightarrow> real \<Rightarrow> real \<Rightarrow> real \<Rightarrow> star" where
  "mk_star n r d g = \<lparr>name = n, ra = r, dec = d, mag = g\<rparr>"

text \<open>\<open>generateStarCatalog()\<close>, lines 137 to 158. The 200 stars that
  \<open>generateRandomStars\<close> draws with \<open>Math.random\<close> are the parameter \<open>background\<close>.\<close>

definition generateStarCatalog :: "star list \<Rightarrow> star list" where
  "generateStarCatalog background =
     [mk_star ''Sirius'' 6.75 (-16.7) (-1.46),
      mk_star ''Canopus'' 6.40 (-52.7) (-0.74),
      mk_star ''Arcturus'' 14.26 19.2 (-0.05),
      mk_star ''Vega'' 18.62 38.8 0.03,
      mk_star ''Capella'' 5.28 45.98 0.08,
      mk_star ''Rigel'' 5.24 (-8.2) 0.18,
      mk_star ''Procyon'' 7.66 5.2 0.34,
      mk_star ''Betelgeuse'' 5.92 7.4 0.42,
      mk_star ''Achernar'' 1.63 (-57.2) 0.46,
      mk_star ''Altair'' 19.85 8.87 0.76,
      mk_star ''Spica'' 13.42 (-11.16) 0.98,
      mk_star ''Pollux'' 7.76 28.0 1.16,
      mk_star ''Fomalhaut'' 22.96 (-29.6) 1.17,
      mk_star ''Deneb'' 20.69 45.28 1.25,
      mk_star ''Regulus'' 10.14 11.97 1.36] @ background"

text \<open>The filter of line 178: \<open>s.mag < 2.0 && s.name && !s.name.startsWith('Star_')\<close>;
  a string is truthy when it is not empty.\<close>

definition isBright :: "star \<Rightarrow> bool" where
  "isBright s \<longleftrightarrow> mag s < 2.0 \<and> name s \<noteq> [] \<and> \<not> prefix ''Star_'' (name s)"

definition brightStars :: "star list \<Rightarrow> star list" where
  "brightStars ss = filter isBright ss"

text \<open>The angular distance of lines 186 to 194, in degrees.\<close>

definition angularDist :: "star \<Rightarrow> star \<Rightarrow> real" where
  "angularDist s1 s2 =
     (let ra1 = ra s1 * 15 * pi / 180;
          dec1 = dec s1 * pi / 180;
          ra2 = ra s2 * 15 * pi / 180;
          dec2 = dec s2 * pi / 180
      in arccos (sin dec1 * sin dec2 + cos dec1 * cos dec2 * cos (ra1 - ra2)) * 180 / pi)"

text \<open>The inner loop over \<open>j\<close> from \<open>i + 1\<close> (the stars after \<open>s1\<close>) and the outer loop
  over \<open>i\<close>, lines 180 to 201.\<close>

fun linesFrom :: "star \<Rightarrow> star list \<Rightarrow> line list" where
  "linesFrom s1 [] = []"
| "linesFrom s1 (s2 # rest) =
     (if angularDist s1 s2 < 30 then \<lparr>star1 = s1, star2 = s2\<rparr> # linesFrom s1 rest
      else linesFrom s1 rest)"

fun linesAmong :: "star list \<Rightarrow> line list" where
  "linesAmong [] = []"
| "linesAmong (s1 # rest) = linesFrom s1 rest @ linesAmong rest"

definition generateConstellationLines :: "star list \<Rightarrow> line list" where
  "generateConstellationLines ss = linesAmong (brightStars ss)"

subsection \<open>Construction, methods and event handlers\<close>

text \<open>The constructor with \<open>setupCanvas\<close>, lines 5 to 51: \<open>rectWidth\<close> is the width of the
  container's bounding rectangle.\<close>

definition new_StarMap :: "real \<Rightarrow> star list \<Rightarrow> star_map" where
  "new_StarMap rectWidth background =
     (let catalog = generateStarCatalog background
      in \<lparr>canvas_width = rectWidth - 40, canvas_height = 600,
          zoom = 1, panX = 0, panY = 0, showConstellations = True,
          isDragging = False, lastMouseX = 0, lastMouseY = 0,
          stars = catalog, plottedObjects = [],
          constellations = generateConstellationLines catalog\<rparr>)"

text \<open>\<open>plotObject(name, ra, dec, type = 'Object')\<close>, lines 206 to 219: the position is
  computed before \<open>panX\<close>, \<open>panY\<close> and \<open>zoom\<close> are assigned. A missing \<open>type\<close> is
  \<open>None\<close>.\<close>

definition plotObject :: "star_map \<Rightarrow> string \<Rightarrow> real \<Rightarrow> real \<Rightarrow> string option \<Rightarrow> star_map" where
  "plotObject m n r d t =
     (let ty = (case t of None \<Rightarrow> ''Object'' | Some v \<Rightarrow> v);
          m1 = m\<lparr>plottedObjects := filter (\<lambda>obj. name obj \<noteq> n) (plottedObjects m)\<rparr>;
          m2 = m1\<lparr>plottedObjects := plottedObjects m1 @ [\<lparr>name = n, ra = r, dec = d, otype = ty\<rparr>]\<rparr>;
          pos = raDecToCanvas m2 r d;
          m3 = m2\<lparr>panX := - pos_x pos + canvas_width m2 / 2\<rparr>;
          m4 = m3\<lparr>panY := - pos_y pos + canvas_height m3 / 2\<rparr>
      in m4\<lparr>zoom := 2\<rparr>)"

text \<open>\<open>clearPlottedObjects()\<close>, \<open>resetView()\<close> and \<open>toggleConstellations()\<close>.\<close>

definition clearPlottedObjects :: "star_map \<Rightarrow> star_map" where
  "clearPlottedObjects m = m\<lparr>plottedObjects := []\<rparr>"

definition resetView :: "star_map \<Rightarrow> star_map" where
  "resetView m = m\<lparr>zoom := 1, panX := 0, panY := 0\<rparr>"

definition toggleConstellations :: "star_map \<Rightarrow> star_map" where
  "toggleConstellations m = m\<lparr>showConstellations := \<not> showConstellations m\<rparr>"

text \<open>The listeners of \<open>setupEventListeners\<close> and \<open>setupCanvas\<close>, one function each.\<close>

definition mousedown :: "star_map \<Rightarrow> real \<Rightarrow> real \<Rightarrow> star_map" where
  "mousedown m ox oy = m\<lparr>isDragging := True, lastMouseX := ox, lastMouseY := oy\<rparr>"

definition mousemove :: "star_map \<Rightarrow> real \<Rightarrow> real \<Rightarrow> star_map" where
  "mousemove m ox oy =
     (if isDragging m then
        (let dx = ox - lastMouseX m;
             dy = oy - lastMouseY m
         in m\<lparr>panX := panX m + dx, panY := panY m + dy, lastMouseX := ox, lastMouseY := oy\<rparr>)
      else m)"

definition mouseup :: "star_map \<Rightarrow> star_map" where
  "mouseup m = m\<lparr>isDragging := False\<rparr>"

definition mouseleave :: "star_map \<Rightarrow> star_map" where
  "mouseleave m = m\<lparr>isDragging := False\<rparr>"

definition wheel :: "star_map \<Rightarrow> real \<Rightarrow> star_map" where
  "wheel m deltaY =
     (let zoomFactor = (if deltaY > 0 then 0.9 else 1.1);
          m1 = m\<lparr>zoom := zoom m * zoomFactor\<rparr>
      in m1\<lparr>zoom := max 0.5 (min 5 (zoom m1))\<rparr>)"

definition zoomIn :: "star_map \<Rightarrow> star_map" where
  "zoomIn m = m\<lparr>zoom := min 5 (zoom m * 1.2)\<rparr>"

definition zoomOut :: "star_map \<Rightarrow> star_map" where
  "zoomOut m = m\<lparr>zoom := max 0.5 (zoom m / 1.2)\<rparr>"

definition resize :: "star_map \<Rightarrow> real \<Rightarrow> star_map" where
  "resize m rectWidth = m\<lparr>canvas_width := rectWidth - 40, canvas_height := 600\<rparr>"

text \<open>Everything that can happen to a map after its construction.\<close>

datatype event =
    MouseDown real real
  | MouseMove real real
  | MouseUp
  | MouseLeave
  | Wheel real
  | ResetClick
  | ToggleClick
  | ZoomInClick
  | ZoomOutClick
  | Resize real
  | PlotObject string real real "string option"
  | ClearPlottedObjects

fun handle :: "star_map \<Rightarrow> event \<Rightarrow> star_map" where
  "handle m (MouseDown ox oy) = mousedown m ox oy"
| "handle m (MouseMove ox oy) = mousemove m ox oy"
| "handle m MouseUp = mouseup m"
| "handle m MouseLeave = mouseleave m"
| "handle m (Wheel deltaY) = wheel m deltaY"
| "handle m ResetClick = resetView m"
| "handle m ToggleClick = toggleConstellations m"
| "handle m ZoomInClick = zoomIn m"
| "handle m ZoomOutClick = zoomOut m"
| "handle m (Resize rectWidth) = resize m rectWidth"
| "handle m (PlotObject n r d t) = plotObject m n r d t"
| "handle m ClearPlottedObjects = clearPlottedObjects m"

definition run :: "star_map \<Rightarrow> event list \<Rightarrow> star_map" where
  "run m evs = foldl handle m evs"

text \<open>The projection formula as the specification words it.\<close>

definition spec_project_x :: "real \<Rightarrow> real \<Rightarrow> real \<Rightarrow> real \<Rightarrow> real \<Rightarrow> real" where
  "spec_project_x w z px r d =
     w / 2 + px + sin ((r * 15 - 180) * pi / 180) * cos (d * pi / 180) * w * z * 0.4"

definition spec_project_y :: "real \<Rightarrow> real \<Rightarrow> real \<Rightarrow> real \<Rightarrow> real \<Rightarrow> real \<Rightarrow> real" where
  "spec_project_y w h z py r d =
     h / 2 + py - cos ((r * 15 - 180) * pi / 180) * cos (d * pi / 180) * w * z * 0.4"

section \<open>Properties\<close>

subsection \<open>Projection\<close>

text \<open>
  C5. For every right ascension, declination and map state the projection returns
  \<open>x = centerX + panX + sin raRad * cos decRad * canvasWidth * zoom * 0.4\<close> and
  \<open>y = centerY + panY - cos raRad * cos decRad * canvasWidth * zoom * 0.4\<close>, with
  \<open>raRad = (ra * 15 - 180) * pi / 180\<close>, \<open>decRad = dec * pi / 180\<close> and the centre at half
  the canvas width and height.
\<close>

theorem raDecToCanvas_formula:
  "pos_x (raDecToCanvas m r d) = spec_project_x (canvas_width m) (zoom m) (panX m) r d \<and>
   pos_y (raDecToCanvas m r d) =
     spec_project_y (canvas_width m) (canvas_height m) (zoom m) (panY m) r d"
  by (simp add: raDecToCanvas_def spec_project_x_def spec_project_y_def Let_def)

text \<open>
  C2, as stated, fails. With \<open>zoom = 1\<close> and \<open>panX = panY = 0\<close> the point at right
  ascension 12 h, declination 0 has \<open>raRad = 0\<close>, so \<open>sin raRad = 0\<close> and \<open>x\<close> is the
  centre's, but \<open>cos raRad = 1\<close> and \<open>cos decRad = 1\<close>, so \<open>y\<close> lies
  \<open>0.4 * canvasWidth\<close> above the centre. On a fresh map with an 800 by 600 canvas the
  result is \<open>(400, -20)\<close>, not \<open>(400, 300)\<close>.
\<close>

theorem raDecToCanvas_noon_equator_counterexample:
  "zoom (new_StarMap 840 []) = 1 \<and> panX (new_StarMap 840 []) = 0 \<and>
   panY (new_StarMap 840 []) = 0 \<and>
   raDecToCanvas (new_StarMap 840 []) 12 0 \<noteq>
     \<lparr>pos_x = canvas_width (new_StarMap 840 []) / 2,
      pos_y = canvas_height (new_StarMap 840 []) / 2\<rparr>"
  by (simp add: raDecToCanvas_def new_StarMap_def Let_def)

text \<open>
  C2, amended. With \<open>zoom = 1\<close> and \<open>panX = panY = 0\<close>, projecting right ascension 12 h,
  declination 0 returns \<open>x = centerX\<close> and \<open>y = centerY - 0.4 * canvasWidth\<close>: the point
  is on the vertical line through the canvas centre, \<open>0.4 * canvasWidth\<close> above it.
\<close>

theorem raDecToCanvas_noon_equator:
  assumes "zoom m = 1" and "panX m = 0" and "panY m = 0"
  shows "raDecToCanvas m 12 0 =
           \<lparr>pos_x = canvas_width m / 2, pos_y = canvas_height m / 2 - canvas_width m * 0.4\<rparr>"
  using assms by (simp add: raDecToCanvas_def Let_def)

theorem raDecToCanvas_noon_equator_witness:
  "zoom (new_StarMap 840 []) = 1 \<and> panX (new_StarMap 840 []) = 0 \<and>
   panY (new_StarMap 840 []) = 0 \<and>
   raDecToCanvas (new_StarMap 840 []) 12 0 = \<lparr>pos_x = 400, pos_y = - 20\<rparr>"
  using raDecToCanvas_noon_equator [of "new_StarMap 840 []"]
  by (simp add: new_StarMap_def Let_def)

text \<open>A call of \<open>raDecToCanvas\<close> returns the point of the function above and hands the
  map back as it received it.\<close>

lemma run_this_field: "run_state (this_field f) m = (f m, m)"
  by (simp add: this_field_def)

lemma run_raDecToCanvas_call:
  "run_state (raDecToCanvas_call r d) m = (raDecToCanvas m r d, m)"
  by (simp add: raDecToCanvas_call_def raDecToCanvas_def run_this_field Let_def)

text \<open>
  C8. The projection is deterministic and has no effect on the map. Two calls with the same
  right ascension and declination, on maps that agree on zoom, pan and canvas size, return
  the same point, whatever the other fields hold; each call leaves the map it ran on
  unchanged, in every field; and two calls one after the other on the same map return the
  same point twice and leave that map unchanged.
\<close>

theorem raDecToCanvas_deterministic:
  assumes "zoom m1 = zoom m2" and "panX m1 = panX m2" and "panY m1 = panY m2"
    and "canvas_width m1 = canvas_width m2" and "canvas_height m1 = canvas_height m2"
  shows "fst (run_state (raDecToCanvas_call r d) m1) = fst (run_state (raDecToCanvas_call r d) m2) \<and>
         snd (run_state (raDecToCanvas_call r d) m1) = m1 \<and>
         snd (run_state (raDecToCanvas_call r d) m2) = m2 \<and>
         run_state (do { p \<leftarrow> raDecToCanvas_call r d;
                         q \<leftarrow> raDecToCanvas_call r d;
                         State_Monad.return (p, q) }) m1
           = ((fst (run_state (raDecToCanvas_call r d) m1),
               fst (run_state (raDecToCanvas_call r d) m1)), m1)"
proof -
  have "raDecToCanvas m1 r d = raDecToCanvas m2 r d"
    using assms by (simp add: raDecToCanvas_def Let_def)
  then show ?thesis
    by (simp add: run_raDecToCanvas_call)
qed

theorem raDecToCanvas_deterministic_witness:
  "fst (run_state (raDecToCanvas_call 18 0) (new_StarMap 840 [])) = \<lparr>pos_x = 720, pos_y = 300\<rparr> \<and>
   fst (run_state (raDecToCanvas_call 18 0)
          (mousedown (clearPlottedObjects (new_StarMap 840 [mk_star ''Star_0'' 1 2 3])) 5 7))
     = \<lparr>pos_x = 720, pos_y = 300\<rparr> \<and>
   snd (run_state (raDecToCanvas_call 18 0) (new_StarMap 840 [])) = new_StarMap 840 [] \<and>
   new_StarMap 840 [] \<noteq>
     mousedown (clearPlottedObjects (new_StarMap 840 [mk_star ''Star_0'' 1 2 3])) 5 7"
proof -
  let ?m1 = "new_StarMap 840 []"
  let ?m2 = "mousedown (clearPlottedObjects (new_StarMap 840 [mk_star ''Star_0'' 1 2 3])) 5 7"
  have agree: "zoom ?m1 = zoom ?m2" "panX ?m1 = panX ?m2" "panY ?m1 = panY ?m2"
    "canvas_width ?m1 = canvas_width ?m2" "canvas_height ?m1 = canvas_height ?m2"
    by (simp_all add: new_StarMap_def mousedown_def clearPlottedObjects_def Let_def)
  have val: "fst (run_state (raDecToCanvas_call 18 0) ?m1) = \<lparr>pos_x = 720, pos_y = 300\<rparr>"
    by (simp add: raDecToCanvas_call_def this_field_def new_StarMap_def Let_def)
  have differ: "isDragging ?m1 \<noteq> isDragging ?m2"
    by (simp add: new_StarMap_def mousedown_def clearPlottedObjects_def Let_def)
  then have "?m1 \<noteq> ?m2" by auto
  with val raDecToCanvas_deterministic [OF agree, of 18 0] show ?thesis
    by simp
qed

text \<open>
  At the poles the projection is the centre moved by the pan whenever the cosine of the
  declination is exactly 0. Over the reals that is the case at declination 90 and -90; the
  cosine that the program computes in double precision at these arguments is a small
  non-zero number, so an exact statement about the projected poles depends on
  floating-point rounding, which this embedding leaves out.
\<close>

lemma raDecToCanvas_zero_cosine:
  "cos (d * pi / 180) = 0 \<Longrightarrow>
   raDecToCanvas m r d =
     \<lparr>pos_x = canvas_width m / 2 + panX m, pos_y = canvas_height m / 2 + panY m\<rparr>"
  by (simp add: raDecToCanvas_def Let_def)

subsection \<open>Visibility\<close>

text \<open>
  C7. \<open>isPointVisible\<close> is true exactly for the points less than 50 pixels outside the
  canvas on each side (\<open>-50 < x < width + 50\<close> and \<open>-50 < y < height + 50\<close>); for a canvas
  of positive width and height it is true at the canvas centre; it is false at
  \<open>(-1000, -1000)\<close>; and it does not read the zoom factor.
\<close>

theorem isPointVisible_margin:
  "(isPointVisible m p \<longleftrightarrow>
      - 50 < pos_x p \<and> pos_x p < canvas_width m + 50 \<and>
      - 50 < pos_y p \<and> pos_y p < canvas_height m + 50) \<and>
   (0 < canvas_width m \<and> 0 < canvas_height m \<longrightarrow>
      isPointVisible m \<lparr>pos_x = canvas_width m / 2, pos_y = canvas_height m / 2\<rparr>) \<and>
   \<not> isPointVisible m \<lparr>pos_x = - 1000, pos_y = - 1000\<rparr> \<and>
   isPointVisible (m\<lparr>zoom := z\<rparr>) p = isPointVisible m p"
  by (simp add: isPointVisible_def)

theorem isPointVisible_margin_witness:
  "0 < canvas_width (new_StarMap 840 []) \<and> 0 < canvas_height (new_StarMap 840 []) \<and>
   isPointVisible (new_StarMap 840 []) \<lparr>pos_x = 400, pos_y = 300\<rparr> \<and>
   \<not> isPointVisible (new_StarMap 840 []) \<lparr>pos_x = - 1000, pos_y = - 1000\<rparr>"
  using isPointVisible_margin [of "new_StarMap 840 []" "\<lparr>pos_x = 400, pos_y = 300\<rparr>" 1]
  by (simp add: new_StarMap_def Let_def)

subsection \<open>Plotting an object\<close>

text \<open>What \<open>plotObject\<close> leaves in each field that the claims read.\<close>

lemma plotObject_plottedObjects:
  "plottedObjects (plotObject m n r d t) =
     filter (\<lambda>obj. name obj \<noteq> n) (plottedObjects m) @
       [\<lparr>name = n, ra = r, dec = d, otype = (case t of None \<Rightarrow> ''Object'' | Some v \<Rightarrow> v)\<rparr>]"
  by (simp add: plotObject_def Let_def)

lemma plotObject_canvas:
  "canvas_width (plotObject m n r d t) = canvas_width m \<and>
   canvas_height (plotObject m n r d t) = canvas_height m"
  by (simp add: plotObject_def Let_def)

lemma plotObject_zoom: "zoom (plotObject m n r d t) = 2"
  by (simp add: plotObject_def Let_def)

text \<open>
  Where the plotted object lands once \<open>plotObject\<close> has returned. The pan is taken from a
  position that already contains the old pan and the old zoom, and the zoom is changed
  afterwards, so the object is at the centre only when the two last summands cancel.
\<close>

lemma plotObject_reproject_x:
  "pos_x (raDecToCanvas (plotObject m n r d t) r d) =
     canvas_width m / 2 - panX m +
     sin ((r * 15 - 180) * pi / 180) * cos (d * pi / 180) * canvas_width m * (2 - zoom m) * 0.4"
  by (simp add: plotObject_def raDecToCanvas_def Let_def algebra_simps)

lemma plotObject_reproject_y:
  "pos_y (raDecToCanvas (plotObject m n r d t) r d) =
     canvas_height m / 2 - panY m -
     cos ((r * 15 - 180) * pi / 180) * cos (d * pi / 180) * canvas_width m * (2 - zoom m) * 0.4"
  by (simp add: plotObject_def raDecToCanvas_def Let_def algebra_simps)

lemma new_StarMap_view:
  "canvas_width (new_StarMap w bg) = w - 40 \<and> canvas_height (new_StarMap w bg) = 600 \<and>
   zoom (new_StarMap w bg) = 1 \<and> panX (new_StarMap w bg) = 0 \<and> panY (new_StarMap w bg) = 0 \<and>
   plottedObjects (new_StarMap w bg) = []"
  by (simp add: new_StarMap_def Let_def)

text \<open>Vega's bearing is 99.3 degrees and its declination 38.8 degrees: the sine of the
  first and the cosine of the second are positive.\<close>

lemma vega_bearing_pos: "0 < sin ((18.62 * 15 - 180) * pi / 180) * cos (38.8 * pi / 180)"
proof -
  have "0 < sin ((18.62 * 15 - 180) * pi / 180)"
    by (rule sin_gt_zero) (use pi_gt_zero in simp_all)
  moreover have "0 < cos (38.8 * pi / 180)"
    by (rule cos_gt_zero_pi) (use pi_gt_zero in simp_all)
  ultimately show ?thesis by simp
qed

text \<open>
  C1. The claim is that after \<open>plotObject(name, ra, dec, kind)\<close> the zoom is 2 and the same
  \<open>(ra, dec)\<close> projects to the canvas centre. The zoom is 2, but the object is not centred:
  on a fresh map with an 800 by 600 canvas, after
  \<open>plotObject("Vega", 18.62, 38.8, "Star")\<close> the projection of \<open>(18.62, 38.8)\<close> has an
  \<open>x\<close> strictly to the right of the centre's. The source comments the assignments with
  \<open>Center view on the object\<close>.
\<close>

theorem plotObject_vega_not_centered:
  "zoom (plotObject (new_StarMap 840 []) ''Vega'' 18.62 38.8 (Some ''Star'')) = 2 \<and>
   pos_x (raDecToCanvas (plotObject (new_StarMap 840 []) ''Vega'' 18.62 38.8 (Some ''Star''))
            18.62 38.8)
     > canvas_width (plotObject (new_StarMap 840 []) ''Vega'' 18.62 38.8 (Some ''Star'')) / 2"
  using vega_bearing_pos
  by (auto simp add: plotObject_zoom plotObject_reproject_x plotObject_canvas new_StarMap_view
        zero_less_mult_iff)

text \<open>The same on exact numbers: an object at right ascension 18 h on the equator, plotted
  on the fresh 800 by 600 map, lands at \<open>(720, 300)\<close>, while the centre is \<open>(400, 300)\<close>.\<close>

lemma plotObject_east_lands_at:
  "raDecToCanvas (plotObject (new_StarMap 840 []) ''East'' 18 0 None) 18 0
     = \<lparr>pos_x = 720, pos_y = 300\<rparr>"
  by (simp add: plotObject_def raDecToCanvas_def new_StarMap_def Let_def)

subsection \<open>The list of plotted objects\<close>

lemma distinct_names_filter:
  "distinct (map name objs) \<Longrightarrow> distinct (map name (filter P objs))"
  by (induction objs) auto

lemma plotObject_distinct:
  assumes "distinct (map name (plottedObjects m))"
  shows "distinct (map name (plottedObjects (plotObject m n r d t)))"
proof -
  have "n \<notin> name ` set (filter (\<lambda>obj. name obj \<noteq> n) (plottedObjects m))"
    by auto
  with assms show ?thesis
    by (simp add: plotObject_plottedObjects distinct_names_filter)
qed

lemma handle_distinct:
  "distinct (map name (plottedObjects m)) \<Longrightarrow>
   distinct (map name (plottedObjects (handle m ev)))"
proof (cases ev)
  case (PlotObject n r d t)
  assume "distinct (map name (plottedObjects m))"
  then show ?thesis using PlotObject by (simp add: plotObject_distinct)
qed (simp_all add: mousedown_def mousemove_def mouseup_def mouseleave_def wheel_def
      resetView_def toggleConstellations_def zoomIn_def zoomOut_def resize_def
      clearPlottedObjects_def Let_def)

lemma run_distinct:
  "distinct (map name (plottedObjects m)) \<Longrightarrow>
   distinct (map name (plottedObjects (run m evs)))"
  unfolding run_def
proof (induction evs arbitrary: m)
  case Nil
  then show ?case by simp
next
  case (Cons ev evs)
  from Cons.prems have "distinct (map name (plottedObjects (handle m ev)))"
    by (rule handle_distinct)
  then show ?case using Cons.IH by simp
qed

text \<open>
  C6. The list of plotted objects holds at most one entry per name. After
  \<open>plotObject(name, ra, dec, kind)\<close> the entries with that name are exactly one, carrying the
  coordinates of that call; every event keeps the names of the list distinct; and so the
  names are distinct in every state reached from a fresh map.
\<close>

theorem plottedObjects_one_per_name:
  "filter (\<lambda>obj. name obj = n) (plottedObjects (plotObject m n r d t)) =
     [\<lparr>name = n, ra = r, dec = d, otype = (case t of None \<Rightarrow> ''Object'' | Some v \<Rightarrow> v)\<rparr>] \<and>
   (distinct (map name (plottedObjects m)) \<longrightarrow>
      distinct (map name (plottedObjects (handle m ev)))) \<and>
   distinct (map name (plottedObjects (run (new_StarMap w bg) evs)))"
proof -
  have "filter (\<lambda>obj. name obj = n) (filter (\<lambda>obj. name obj \<noteq> n) (plottedObjects m)) = []"
    by (simp add: filter_empty_conv)
  then have "filter (\<lambda>obj. name obj = n) (plottedObjects (plotObject m n r d t)) =
     [\<lparr>name = n, ra = r, dec = d, otype = (case t of None \<Rightarrow> ''Object'' | Some v \<Rightarrow> v)\<rparr>]"
    by (simp add: plotObject_plottedObjects)
  moreover have "distinct (map name (plottedObjects (run (new_StarMap w bg) evs)))"
    by (rule run_distinct) (simp add: new_StarMap_def Let_def)
  ultimately show ?thesis using handle_distinct by blast
qed

theorem plottedObjects_one_per_name_witness:
  "plottedObjects
     (plotObject (plotObject (new_StarMap 840 []) ''Vega'' 1 2 None)
        ''Vega'' 18.62 38.8 (Some ''Star''))
     = [\<lparr>name = ''Vega'', ra = 18.62, dec = 38.8, otype = ''Star''\<rparr>] \<and>
   distinct (map name (plottedObjects (plotObject (new_StarMap 840 []) ''Vega'' 1 2 None))) \<and>
   distinct (map name (plottedObjects
      (handle (plotObject (new_StarMap 840 []) ''Vega'' 1 2 None)
         (PlotObject ''Vega'' 18.62 38.8 (Some ''Star'')))))"
proof -
  have d: "distinct (map name (plottedObjects (plotObject (new_StarMap 840 []) ''Vega'' 1 2 None)))"
    by (simp add: plotObject_plottedObjects new_StarMap_def Let_def)
  have p: "plottedObjects
     (plotObject (plotObject (new_StarMap 840 []) ''Vega'' 1 2 None)
        ''Vega'' 18.62 38.8 (Some ''Star''))
     = [\<lparr>name = ''Vega'', ra = 18.62, dec = 38.8, otype = ''Star''\<rparr>]"
    by (simp add: plotObject_plottedObjects new_StarMap_def Let_def)
  from d p plottedObjects_one_per_name
    [where n = "''Vega''" and m = "plotObject (new_StarMap 840 []) ''Vega'' 1 2 None"
       and r = "18.62" and d = "38.8" and t = "Some ''Star''"
       and ev = "PlotObject ''Vega'' 18.62 38.8 (Some ''Star'')"]
  show ?thesis by blast
qed

text \<open>
  C10. \<open>clearPlottedObjects\<close> empties the list of plotted objects and leaves zoom, pan,
  the constellation flag, the star catalog and the constellation lines (and the canvas size)
  as they were.
\<close>

theorem clearPlottedObjects_frame:
  "plottedObjects (clearPlottedObjects m) = [] \<and>
   zoom (clearPlottedObjects m) = zoom m \<and>
   panX (clearPlottedObjects m) = panX m \<and>
   panY (clearPlottedObjects m) = panY m \<and>
   showConstellations (clearPlottedObjects m) = showConstellations m \<and>
   stars (clearPlottedObjects m) = stars m \<and>
   constellations (clearPlottedObjects m) = constellations m \<and>
   canvas_width (clearPlottedObjects m) = canvas_width m \<and>
   canvas_height (clearPlottedObjects m) = canvas_height m"
  by (simp add: clearPlottedObjects_def)

subsection \<open>Zoom\<close>

lemma handle_zoom_range:
  "0.5 \<le> zoom m \<and> zoom m \<le> 5 \<Longrightarrow> 0.5 \<le> zoom (handle m ev) \<and> zoom (handle m ev) \<le> 5"
  by (cases ev)
    (auto simp: mousedown_def mousemove_def mouseup_def mouseleave_def wheel_def resetView_def
      toggleConstellations_def zoomIn_def zoomOut_def resize_def plotObject_def
      clearPlottedObjects_def Let_def)

lemma run_zoom_range:
  "0.5 \<le> zoom m \<and> zoom m \<le> 5 \<Longrightarrow> 0.5 \<le> zoom (run m evs) \<and> zoom (run m evs) \<le> 5"
  unfolding run_def
proof (induction evs arbitrary: m)
  case Nil
  then show ?case by simp
next
  case (Cons ev evs)
  from Cons.prems have "0.5 \<le> zoom (handle m ev) \<and> zoom (handle m ev) \<le> 5"
    by (rule handle_zoom_range)
  then show ?case using Cons.IH by simp
qed

text \<open>
  C4. From a fresh map (zoom 1), after any finite sequence of events (wheel ticks, the
  zoom-in and zoom-out buttons, \<open>plotObject\<close>, \<open>resetView\<close>, dragging, and every other
  handler) the zoom factor lies in the closed interval from 0.5 to 5.
\<close>

theorem zoom_invariant:
  "0.5 \<le> zoom (run (new_StarMap w bg) evs) \<and> zoom (run (new_StarMap w bg) evs) \<le> 5"
  by (rule run_zoom_range) (simp add: new_StarMap_def Let_def)

subsection \<open>Constellation lines\<close>

text \<open>The argument that the source passes to \<open>Math.acos\<close> is a cosine of an angle on the
  sphere: over the reals it always lies between -1 and 1, where \<^term>\<open>arccos\<close> is the
  inverse cosine.\<close>

lemma angular_cosine_bounded:
  fixes a b c :: real
  shows "\<bar>sin a * sin b + cos a * cos b * cos c\<bar> \<le> 1"
proof -
  have sum: "\<bar>cos a * cos b + sin a * sin b\<bar> \<le> 1"
    using abs_cos_le_one [of "a - b"] by (simp add: cos_diff)
  have diff: "\<bar>cos a * cos b - sin a * sin b\<bar> \<le> 1"
    using abs_cos_le_one [of "a + b"] by (simp add: cos_add)
  have "\<bar>cos a * cos b * cos c\<bar> \<le> \<bar>cos a * cos b\<bar>"
    using abs_cos_le_one [of c] by (simp add: abs_mult mult_left_le)
  with sum diff show ?thesis by linarith
qed

lemma linesFrom_sound:
  "l \<in> set (linesFrom s1 rest) \<Longrightarrow>
     star1 l = s1 \<and> star2 l \<in> set rest \<and> angularDist s1 (star2 l) < 30"
  by (induction rest) (auto split: if_splits)

lemma linesAmong_sound:
  "l \<in> set (linesAmong ss) \<Longrightarrow>
     star1 l \<in> set ss \<and> star2 l \<in> set ss \<and> angularDist (star1 l) (star2 l) < 30"
proof (induction ss)
  case Nil
  then show ?case by simp
next
  case (Cons s rest)
  from Cons.prems have "l \<in> set (linesFrom s rest) \<or> l \<in> set (linesAmong rest)"
    by simp
  then show ?case
  proof
    assume "l \<in> set (linesFrom s rest)"
    then show ?thesis using linesFrom_sound [of l s rest] by simp
  next
    assume "l \<in> set (linesAmong rest)"
    then show ?thesis using Cons.IH by simp
  qed
qed

text \<open>
  C3. Every line that \<open>generateConstellationLines\<close> produces joins two stars of the
  catalog that both have magnitude below 2.0 and a name not starting with \<open>Star_\<close>, and
  whose angular distance, by the spherical law of cosines with right ascension taken from
  hours to radians through \<open>ra * 15\<close> degrees and declination from degrees to radians, is
  strictly below 30 degrees; no pair at 30 degrees or more is joined.
\<close>

theorem generateConstellationLines_sound:
  assumes "l \<in> set (generateConstellationLines ss)"
  shows "star1 l \<in> set ss \<and> star2 l \<in> set ss \<and>
         mag (star1 l) < 2.0 \<and> mag (star2 l) < 2.0 \<and>
         \<not> prefix ''Star_'' (name (star1 l)) \<and> \<not> prefix ''Star_'' (name (star2 l)) \<and>
         arccos (sin (dec (star1 l) * pi / 180) * sin (dec (star2 l) * pi / 180) +
                 cos (dec (star1 l) * pi / 180) * cos (dec (star2 l) * pi / 180) *
                 cos (ra (star1 l) * 15 * pi / 180 - ra (star2 l) * 15 * pi / 180))
           * 180 / pi < 30 \<and>
         \<not> 30 \<le> angularDist (star1 l) (star2 l)"
proof -
  from assms have "l \<in> set (linesAmong (brightStars ss))"
    by (simp add: generateConstellationLines_def)
  then have "star1 l \<in> set (brightStars ss)" and "star2 l \<in> set (brightStars ss)"
    and "angularDist (star1 l) (star2 l) < 30"
    using linesAmong_sound by blast+
  then show ?thesis
    by (simp add: brightStars_def isBright_def angularDist_def Let_def)
qed

theorem generateConstellationLines_sound_witness:
  "\<lparr>star1 = mk_star ''A'' 0 0 1, star2 = mk_star ''B'' 0 0 1\<rparr>
     \<in> set (generateConstellationLines
              [mk_star ''A'' 0 0 1, mk_star ''Star_7'' 0 0 1, mk_star ''B'' 0 0 1]) \<and>
   mag (mk_star ''A'' 0 0 1) < 2.0 \<and> \<not> prefix ''Star_'' (name (mk_star ''B'' 0 0 1)) \<and>
   \<not> 30 \<le> angularDist (mk_star ''A'' 0 0 1) (mk_star ''B'' 0 0 1)"
proof -
  have mem: "\<lparr>star1 = mk_star ''A'' 0 0 1, star2 = mk_star ''B'' 0 0 1\<rparr>
     \<in> set (generateConstellationLines
              [mk_star ''A'' 0 0 1, mk_star ''Star_7'' 0 0 1, mk_star ''B'' 0 0 1])"
    by (simp add: generateConstellationLines_def brightStars_def isBright_def mk_star_def
        angularDist_def Let_def)
  show ?thesis
    using mem generateConstellationLines_sound [OF mem] by simp
qed

end
